theory Spec2Isabelle
  imports Complex_Main "HOL-Library.Word"
begin

section \<open>KSRS: scheduler, text matcher and usefulness scorer\<close>

text \<open>
  The repository holds two schedulers: the library module \<^verbatim>\<open>lib/srs/sm2.ts\<close>
  (\<^verbatim>\<open>calculateNextReview\<close>, with its unit tests; its text follows the matcher's tests
  in \<^verbatim>\<open>src/lib/fuzzy/match.test.ts\<close>, lines 171 to 327) and the private function
  \<^verbatim>\<open>calculateSM2\<close> of the review route \<^verbatim>\<open>app/api/review/[deckId]/route.ts\<close>, which
  the HTTP handler calls. Both are embedded below, each from its own source text.

  Conventions of the embedding.
  \<^item> A JavaScript \<^verbatim>\<open>number\<close> is an exact rational (\<^typ>\<open>rat\<close>) and sums and products
    of variables are exact. The two products of constants in \<^verbatim>\<open>calculateNextInterval\<close>
    carry the value that binary64 arithmetic gives them. In the scorer, where the code
    can produce \<^verbatim>\<open>NaN\<close>, a number is a rational or \<^verbatim>\<open>NaN\<close>. Integer-valued fields
    of the database (\<^verbatim>\<open>repetitions\<close>) are \<^typ>\<open>int\<close>.
  \<^item> A \<^verbatim>\<open>Record<string, number>\<close> is a plain object: the finite map of its own
    properties, and behind it the members it inherits from \<^verbatim>\<open>Object.prototype\<close>.
  \<^item> A JavaScript string is the list of its UTF-16 code units (\<^typ>\<open>16 word\<close>).
  \<^item> An instant is its number of milliseconds since the epoch, as \<^verbatim>\<open>Date.getTime\<close>
    returns it. The calendar arithmetic of the route's handler (\<^verbatim>\<open>setMinutes\<close>,
    \<^verbatim>\<open>setDate\<close>) is not modelled.
\<close>

subsection \<open>Numbers\<close>

definition Math_round :: "rat \<Rightarrow> rat" where
  \<comment> \<open>\<^verbatim>\<open>Math.round\<close>: the nearest integer, a tie going up.\<close>
  "Math_round x = of_int \<lfloor>x + 1 / 2\<rfloor>"

definition roundTiesToEven :: "rat \<Rightarrow> int" where
  "roundTiesToEven x =
     (let f = \<lfloor>x\<rfloor>; r = x - of_int f
      in if r < 1 / 2 then f else if 1 / 2 < r then f + 1 else if even f then f else f + 1)"

definition binary64 :: "nat \<Rightarrow> rat \<Rightarrow> rat" where
  \<comment> \<open>The binary64 number nearest to \<open>x\<close>, ties to even, for \<open>x\<close> from \<open>2 ^ 52 / 2 ^ k\<close> up to
      \<open>2 ^ 53 / 2 ^ k\<close>: there the binary64 numbers are the multiples of \<open>1 / 2 ^ k\<close>. The
      literals 1.2 and 1.3 lie between 1 and 2 (\<open>k = 52\<close>), their products with 6 between
      4 and 8 (\<open>k = 50\<close>).\<close>
  "binary64 k x = of_int (roundTiesToEven (x * 2 ^ k)) / 2 ^ k"

subsection \<open>Scheduler of the review route (\<^verbatim>\<open>calculateSM2\<close>)\<close>

datatype Rating = Again | Hard | Good | Easy
  \<comment> \<open>\<^verbatim>\<open>1 | 2 | 3 | 4\<close>\<close>

record SM2State =
  easeFactor :: rat
  intervalDays :: rat
  repetitions :: int

fun calculateSM2 :: "Rating \<Rightarrow> rat \<Rightarrow> rat \<Rightarrow> int \<Rightarrow> SM2State" where
  "calculateSM2 Again ef ivl reps =
     \<lparr>easeFactor = max (13 / 10) (ef - 1 / 5), intervalDays = 0, repetitions = 0\<rparr>"
| "calculateSM2 Hard ef ivl reps =
     \<lparr>easeFactor = max (13 / 10) (ef - 3 / 20),
      intervalDays = max 1 (Math_round (ivl * (6 / 5))),
      repetitions = reps + 1\<rparr>"
| "calculateSM2 Good ef ivl reps =
     (let newRepetitions = reps + 1 in
      \<lparr>easeFactor = ef,
       intervalDays =
         (if newRepetitions = 1 then 1
          else if newRepetitions = 2 then 6
          else Math_round (ivl * ef)),
       repetitions = newRepetitions\<rparr>)"
| "calculateSM2 Easy ef ivl reps =
     (let newRepetitions = reps + 1 in
      \<lparr>easeFactor = ef + 3 / 20,
       intervalDays =
         (if newRepetitions = 1 then 4
          else if newRepetitions = 2 then 10
          else Math_round (ivl * ef * (13 / 10))),
       repetitions = newRepetitions\<rparr>)"

text \<open>
  The progress record that the \<^verbatim>\<open>POST\<close> handler holds for a card after the ratings
  submitted so far, the latest first: it is created with ease 2.5, interval 0 and
  repetitions 0 (lines 341 to 353), and each submission replaces its three fields by the
  result of \<^verbatim>\<open>calculateSM2\<close> on them (lines 356 to 361 and 374 to 382). The handler
  rejects a rating outside 1 to 4 (lines 287 to 292), and \<^verbatim>\<open>calculateSM2\<close> has no other
  caller.
\<close>

fun stateAfter :: "Rating list \<Rightarrow> SM2State" where
  "stateAfter [] = \<lparr>easeFactor = 5 / 2, intervalDays = 0, repetitions = 0\<rparr>"
| "stateAfter (rating # earlier) =
     (let cardProgress = stateAfter earlier
      in calculateSM2 rating (easeFactor cardProgress) (intervalDays cardProgress)
           (repetitions cardProgress))"

subsection \<open>Library scheduler (\<^verbatim>\<open>lib/srs/sm2.ts\<close>)\<close>

record CardState = SM2State +
  dueAt :: rat

record ReviewResult =
  newState :: CardState
  nextReviewDate :: rat

definition getInitialState :: "rat \<Rightarrow> CardState" where
  \<comment> \<open>The argument is the wall clock read by \<^verbatim>\<open>new Date()\<close>.\<close>
  "getInitialState clock =
     \<lparr>easeFactor = 5 / 2, intervalDays = 0, repetitions = 0, dueAt = clock\<rparr>"

fun calculateNewEaseFactor :: "rat \<Rightarrow> Rating \<Rightarrow> rat" where
  "calculateNewEaseFactor current Again = max (13 / 10) (current - 1 / 5)"
| "calculateNewEaseFactor current Hard = max (13 / 10) (current - 3 / 20)"
| "calculateNewEaseFactor current Good = max (13 / 10) current"
| "calculateNewEaseFactor current Easy = max (13 / 10) (current + 3 / 20)"

definition calculateNextInterval :: "CardState \<Rightarrow> Rating \<Rightarrow> rat" where
  \<comment> \<open>\<^verbatim>\<open>6 * 1.3\<close> and \<^verbatim>\<open>6 * 1.2\<close> are the binary64 products of the binary64 literals.\<close>
  "calculateNextInterval state rating =
     (if rating = Again then 1 / (24 * 60)
      else if repetitions state = 0 then (if rating = Easy then 4 else 1)
      else if repetitions state = 1 then
        (if rating = Easy then binary64 50 (6 * binary64 52 (13 / 10))
         else if rating = Hard then binary64 50 (6 * binary64 52 (6 / 5))
         else 6)
      else (case rating of
              Hard \<Rightarrow> intervalDays state * (6 / 5)
            | Good \<Rightarrow> intervalDays state * easeFactor state
            | Easy \<Rightarrow> intervalDays state * easeFactor state * (13 / 10)
            | Again \<Rightarrow> intervalDays state))"

definition calculateNextReview :: "rat \<Rightarrow> CardState \<Rightarrow> Rating \<Rightarrow> rat option \<Rightarrow> ReviewResult" where
  \<comment> \<open>The first argument is the wall clock, read when \<^verbatim>\<open>reviewedAt\<close> is absent.\<close>
  "calculateNextReview clock currentState rating reviewedAt =
     (let now = (case reviewedAt of Some t \<Rightarrow> t | None \<Rightarrow> clock);
          newEaseFactor = calculateNewEaseFactor (easeFactor currentState) rating;
          newInterval = calculateNextInterval currentState rating;
          newRepetitions = (if rating = Again then 0 else repetitions currentState + 1);
          nextReview = now + newInterval * 24 * 60 * 60 * 1000
      in \<lparr>newState = \<lparr>easeFactor = newEaseFactor, intervalDays = newInterval,
                        repetitions = newRepetitions, dueAt = nextReview\<rparr>,
          nextReviewDate = nextReview\<rparr>)"

subsection \<open>Usefulness scorer (\<^verbatim>\<open>lib/usefulness/score.ts\<close>)\<close>

text \<open>
  Tags and reason texts are compared for equality only; they are \<^typ>\<open>string\<close>s here.
  A reason is a template literal: the list of its parts, in order, a number that the
  source interpolates (\<^verbatim>\<open>${weight}\<close>) being kept as the number itself.
\<close>

datatype piece = Str string | Num rat

type_synonym reason = "piece list"

text \<open>A score or a running total: a number, or \<^verbatim>\<open>NaN\<close>.\<close>

datatype jsnumber = Finite rat | NaN

definition js_add :: "jsnumber \<Rightarrow> jsnumber \<Rightarrow> jsnumber" where
  "js_add a b = (case (a, b) of (Finite x, Finite y) \<Rightarrow> Finite (x + y) | _ \<Rightarrow> NaN)"

definition toNumber :: "rat option \<Rightarrow> jsnumber" where
  \<comment> \<open>A number, or \<^verbatim>\<open>undefined\<close> (\<open>None\<close>), as an operand of \<^verbatim>\<open>+=\<close> on a number.\<close>
  "toNumber v = (case v of None \<Rightarrow> NaN | Some x \<Rightarrow> Finite x)"

text \<open>
  What \<^verbatim>\<open>weights[tag]\<close> evaluates to on a plain object: the number stored under the key,
  a function or object inherited from \<^verbatim>\<open>Object.prototype\<close>, or \<^verbatim>\<open>undefined\<close>.
\<close>

datatype jsvalue = Undefined | Number rat | Object

definition objectPrototypeMembers :: "string list" where
  "objectPrototypeMembers =
     [''constructor'', ''hasOwnProperty'', ''isPrototypeOf'', ''propertyIsEnumerable'',
      ''toLocaleString'', ''toString'', ''valueOf'', ''__proto__'', ''__defineGetter__'',
      ''__defineSetter__'', ''__lookupGetter__'', ''__lookupSetter__'']"

definition getProperty :: "(string \<rightharpoonup> rat) \<Rightarrow> string \<Rightarrow> jsvalue" where
  "getProperty obj key =
     (case obj key of
        Some v \<Rightarrow> Number v
      | None \<Rightarrow> if key \<in> set objectPrototypeMembers then Object else Undefined)"

datatype UserLevel = beginner | intermediate | advanced

record CardInput =
  korean :: string
  english :: string
  tags :: "string list"
  isPattern :: "bool option"
  manualScore :: "rat option"
  frequencyRank :: "rat option"

text \<open>
  The merged configuration. A scalar field holds \<^verbatim>\<open>undefined\<close> (\<open>None\<close>) when the
  caller's object has the key with that value.
\<close>

record ScoringConfig =
  tagWeights :: "string \<rightharpoonup> rat"
  patternBonus :: "rat option"
  frequencyWeight :: "rat option"
  userLevel :: "UserLevel option"

text \<open>
  \<^verbatim>\<open>Partial<ScoringConfig>\<close>: a key is absent, present with the value \<^verbatim>\<open>undefined\<close>, or
  present with a value. For \<^verbatim>\<open>tagWeights\<close> the first two act alike (the spread of
  \<^verbatim>\<open>undefined\<close> adds nothing), so that field is an option.
\<close>

datatype 'a field = Absent | Undef | Value 'a

record PartialScoringConfig =
  tagWeights_opt :: "(string \<rightharpoonup> rat) option"
  patternBonus_opt :: "rat field"
  frequencyWeight_opt :: "rat field"
  userLevel_opt :: "UserLevel field"

record ScoreResult =
  score :: jsnumber
  reasons :: "reason list"

definition DEFAULT_CONFIG :: ScoringConfig where
  "DEFAULT_CONFIG =
     \<lparr>tagWeights = map_of
        [(''beginner'', 10), (''essential'', 10), (''travel'', 8), (''food'', 7),
         (''greeting'', 9), (''pattern'', 8), (''business'', 6), (''formal'', 5),
         (''slang'', 3), (''rare'', - 5)],
      patternBonus = Some 15,
      frequencyWeight = Some (1 / 4),
      userLevel = None\<rparr>"

definition BASE_SCORE :: rat where
  "BASE_SCORE = 50"

definition MAX_TAG_IMPACT :: rat where
  "MAX_TAG_IMPACT = 30"

definition quoted :: "string \<Rightarrow> string" where
  \<comment> \<open>The tag between two apostrophes, as in \<^verbatim>\<open>'${tag}'\<close>.\<close>
  "quoted tag = [CHR 0x27] @ tag @ [CHR 0x27]"

text \<open>
  The variable \<^verbatim>\<open>rawScore\<close>: a number, or, once \<^verbatim>\<open>+=\<close> has met a function or an object, a
  string (the concatenation of the sum so far and the source text of the member), which
  every later \<^verbatim>\<open>+=\<close> only lengthens and which does not read as a number.
\<close>

datatype rawScore = Sum rat | Text

text \<open>The \<^verbatim>\<open>for\<close> loop of \<^verbatim>\<open>getTagScore\<close>, on the pair \<^verbatim>\<open>(rawScore, reasons)\<close>.\<close>

fun getTagScore_loop ::
  "(string \<rightharpoonup> rat) \<Rightarrow> string list \<Rightarrow> rawScore \<times> reason list \<Rightarrow> rawScore \<times> reason list" where
  "getTagScore_loop weights [] acc = acc"
| "getTagScore_loop weights (tag # rest) (raw, rs) =
     (case getProperty weights tag of
        Undefined \<Rightarrow> getTagScore_loop weights rest (raw, rs)
      | Object \<Rightarrow> getTagScore_loop weights rest (Text, rs)
      | Number weight \<Rightarrow>
          getTagScore_loop weights rest
            (case raw of Sum r \<Rightarrow> Sum (r + weight) | Text \<Rightarrow> Text,
             if weight > 0 then
               rs @ [[Str ''+'', Num weight, Str ('' for '' @ quoted tag @ '' tag'')]]
             else if weight < 0 then
               rs @ [[Num weight, Str ('' for '' @ quoted tag @ '' tag'')]]
             else rs))"

definition getTagScore :: "string list \<Rightarrow> (string \<rightharpoonup> rat) \<Rightarrow> jsnumber \<times> reason list" where
  \<comment> \<open>\<^verbatim>\<open>Math.min\<close> and \<^verbatim>\<open>Math.max\<close> give \<^verbatim>\<open>NaN\<close> on the string, and the string differs
      from \<^verbatim>\<open>NaN\<close> under \<^verbatim>\<open>!==\<close>.\<close>
  "getTagScore ts weights =
     (case getTagScore_loop weights ts (Sum 0, []) of
        (Sum r, rs) \<Rightarrow>
          (let clampedScore = max (- MAX_TAG_IMPACT) (min MAX_TAG_IMPACT r)
           in (Finite clampedScore,
               if r \<noteq> clampedScore
               then rs @ [[Str (''tag score capped at '' @ [CHR 0xB1]), Num MAX_TAG_IMPACT]]
               else rs))
      | (Text, rs) \<Rightarrow>
          (NaN, rs @ [[Str (''tag score capped at '' @ [CHR 0xB1]), Num MAX_TAG_IMPACT]]))"

definition getFrequencyScore :: "rat option \<Rightarrow> rat \<times> reason option" where
  "getFrequencyScore rank =
     (case rank of
        None \<Rightarrow> (0, None)
      | Some r \<Rightarrow>
          if r \<le> 1000 then (20, Some [Str ''high-frequency word (rank 1-1000)''])
          else if r \<le> 5000 then (10, Some [Str ''medium-frequency word (rank 1000-5000)''])
          else (0, Some [Str ''low-frequency word (rank 5000+)'']))"

definition getPatternScore :: "bool \<Rightarrow> rat option \<Rightarrow> rat option \<times> reason option" where
  \<comment> \<open>The bonus is returned as it is, \<^verbatim>\<open>undefined\<close> included, and the template literal
      prints \<^verbatim>\<open>undefined\<close> for it.\<close>
  "getPatternScore isPat bonus =
     (if isPat then
        (bonus,
         Some [Str ''+'', (case bonus of Some b \<Rightarrow> Num b | None \<Rightarrow> Str ''undefined''),
               Str '' grammar pattern bonus''])
      else (Some 0, None))"

definition normalizeScore :: "jsnumber \<Rightarrow> jsnumber" where
  \<comment> \<open>\<^verbatim>\<open>Math.round\<close>, \<^verbatim>\<open>Math.min\<close> and \<^verbatim>\<open>Math.max\<close> hand \<^verbatim>\<open>NaN\<close> on.\<close>
  "normalizeScore raw =
     (case raw of NaN \<Rightarrow> NaN | Finite x \<Rightarrow> Finite (max 0 (min 100 (Math_round x))))"

definition mergeField :: "'a option \<Rightarrow> 'a field \<Rightarrow> 'a option" where
  \<comment> \<open>One scalar key of \<^verbatim>\<open>{...DEFAULT_CONFIG, ...config}\<close>: the spread copies a key that is
      present, whatever its value.\<close>
  "mergeField dflt f = (case f of Absent \<Rightarrow> dflt | Undef \<Rightarrow> None | Value v \<Rightarrow> Some v)"

definition mergeConfig :: "PartialScoringConfig option \<Rightarrow> ScoringConfig" where
  \<comment> \<open>\<^verbatim>\<open>{...DEFAULT_CONFIG, ...config, tagWeights: {...DEFAULT_CONFIG.tagWeights, ...config?.tagWeights}}\<close>\<close>
  "mergeConfig config =
     (case config of
        None \<Rightarrow> DEFAULT_CONFIG
      | Some c \<Rightarrow>
          \<lparr>tagWeights = tagWeights DEFAULT_CONFIG ++
             (case tagWeights_opt c of None \<Rightarrow> Map.empty | Some w \<Rightarrow> w),
           patternBonus = mergeField (patternBonus DEFAULT_CONFIG) (patternBonus_opt c),
           frequencyWeight = mergeField (frequencyWeight DEFAULT_CONFIG) (frequencyWeight_opt c),
           userLevel = mergeField (userLevel DEFAULT_CONFIG) (userLevel_opt c)\<rparr>)"

definition append_reason :: "reason list \<Rightarrow> reason option \<Rightarrow> reason list" where
  \<comment> \<open>\<^verbatim>\<open>if (r.reason) reasons.push(r.reason)\<close>\<close>
  "append_reason rs r = (case r of None \<Rightarrow> rs | Some x \<Rightarrow> rs @ [x])"

definition calculateUsefulness :: "CardInput \<Rightarrow> PartialScoringConfig option \<Rightarrow> ScoreResult" where
  "calculateUsefulness cardInput config =
     (case manualScore cardInput of
        Some m \<Rightarrow>
          \<lparr>score = normalizeScore (Finite m), reasons = [[Str ''manual score override'']]\<rparr>
      | None \<Rightarrow>
          (let finalConfig = mergeConfig config;
               rs0 = [[Str ''base score: '', Num BASE_SCORE]];
               tagResult = getTagScore (tags cardInput) (tagWeights finalConfig);
               total1 = js_add (Finite BASE_SCORE) (fst tagResult);
               rs1 = rs0 @ snd tagResult;
               patternResult =
                 getPatternScore (case isPattern cardInput of None \<Rightarrow> False | Some b \<Rightarrow> b)
                   (patternBonus finalConfig);
               total2 = js_add total1 (toNumber (fst patternResult));
               rs2 = append_reason rs1 (snd patternResult);
               frequencyResult = getFrequencyScore (frequencyRank cardInput);
               total3 = js_add total2 (Finite (fst frequencyResult));
               rs3 = append_reason rs2 (snd frequencyResult)
           in \<lparr>score = normalizeScore total3, reasons = rs3\<rparr>))"

subsection \<open>Text matcher (\<^verbatim>\<open>lib/fuzzy/match.ts\<close>)\<close>

type_synonym jschar = "16 word"

type_synonym jsstring = "jschar list"

definition isWhitespace :: "jschar \<Rightarrow> bool" where
  \<comment> \<open>The class \<^verbatim>\<open>\s\<close>, which is also what \<^verbatim>\<open>trim\<close> removes: white space and line
      terminators of ECMAScript.\<close>
  "isWhitespace c =
     (c \<in> set [0x9, 0xA, 0xB, 0xC, 0xD, 0x20, 0xA0, 0x1680, 0x2028, 0x2029, 0x202F, 0x205F,
                0x3000, 0xFEFF]
      \<or> (0x2000 \<le> c \<and> c \<le> 0x200A))"

definition punctuation :: "jschar list" where
  \<comment> \<open>The class of the second \<^verbatim>\<open>replace\<close>: full stop, comma, exclamation and question
      mark, tilde, horizontal ellipsis, the two ASCII quotes, corner brackets.\<close>
  "punctuation =
     [0x2E, 0x2C, 0x21, 0x3F, 0x7E, 0x2026, 0x22, 0x22, 0x27, 0x27, 0x300C, 0x300D, 0x300E,
      0x300F]"

definition asciiPunctuation :: "jschar list" where
  \<comment> \<open>The class of the third \<^verbatim>\<open>replace\<close>: \<^verbatim>\<open>. , : ; ! ? ' " ( ) [ ] { }\<close>\<close>
  "asciiPunctuation =
     [0x2E, 0x2C, 0x3A, 0x3B, 0x21, 0x3F, 0x27, 0x22, 0x28, 0x29, 0x5B, 0x5D, 0x7B, 0x7D]"

definition trim :: "jsstring \<Rightarrow> jsstring" where
  "trim s = rev (dropWhile isWhitespace (rev (dropWhile isWhitespace s)))"

text \<open>
  \<^verbatim>\<open>String.prototype.toLowerCase\<close> belongs to the JavaScript engine, not to the
  repository: it is the first argument of \<^verbatim>\<open>normalizeKorean\<close> and of \<^verbatim>\<open>fuzzyMatch\<close>.
  \<^verbatim>\<open>asciiLower\<close> is its restriction to the letters A to Z, used as a concrete instance.
\<close>

definition normalizeKorean :: "(jsstring \<Rightarrow> jsstring) \<Rightarrow> jsstring \<Rightarrow> jsstring" where
  "normalizeKorean toLowerCase text =
     trim (toLowerCase
       (filter (\<lambda>c. c \<notin> set asciiPunctuation)
         (filter (\<lambda>c. c \<notin> set punctuation)
           (filter (\<lambda>c. \<not> isWhitespace c) text))))"

definition asciiLower :: "jsstring \<Rightarrow> jsstring" where
  "asciiLower s = map (\<lambda>c. if 0x41 \<le> c \<and> c \<le> 0x5A then c + 0x20 else c) s"

datatype DifferenceType = Insert | Delete | Replace
  \<comment> \<open>\<^verbatim>\<open>'insert' | 'delete' | 'replace'\<close>\<close>

record Difference =
  type :: DifferenceType
  position :: nat
  expected :: "jschar option"
  actual :: "jschar option"

record MatchResult =
  isMatch :: bool
  similarity :: rat
  normalizedExpected :: jsstring
  normalizedActual :: jsstring
  differences :: "Difference list"

definition arr_set :: "'a list \<Rightarrow> nat \<Rightarrow> 'a \<Rightarrow> 'a list" where
  \<comment> \<open>The assignment \<^verbatim>\<open>xs[i] = v\<close> for an index up to the length: at the index
      \<^verbatim>\<open>xs.length\<close> the array grows by one element. The loops below never write further.\<close>
  "arr_set xs i v = (if i < length xs then xs[i := v] else xs @ [v])"

definition matrix_set :: "nat list list \<Rightarrow> nat \<Rightarrow> nat \<Rightarrow> nat \<Rightarrow> nat list list" where
  \<comment> \<open>\<^verbatim>\<open>matrix[i][j] = v\<close>\<close>
  "matrix_set m i j v = m[i := arr_set (m ! i) j v]"

definition levenshtein_cell :: "jsstring \<Rightarrow> jsstring \<Rightarrow> nat list list \<Rightarrow> nat \<Rightarrow> nat \<Rightarrow> nat" where
  \<comment> \<open>The value stored in \<^verbatim>\<open>matrix[i][j]\<close> by the body of the inner loop.\<close>
  "levenshtein_cell a b m i j =
     (if b ! (i - 1) = a ! (j - 1) then m ! (i - 1) ! (j - 1)
      else min (m ! (i - 1) ! (j - 1) + 1)
             (min (m ! i ! (j - 1) + 1) (m ! (i - 1) ! j + 1)))"

definition levenshteinDistance :: "jsstring \<Rightarrow> jsstring \<Rightarrow> nat" where
  "levenshteinDistance a b =
     (let m1 = foldl (\<lambda>m i. arr_set m i [i]) [] [0..<Suc (length b)];
          m2 = foldl (\<lambda>m j. matrix_set m 0 j j) m1 [0..<Suc (length a)];
          m3 = foldl
                 (\<lambda>m i. foldl (\<lambda>m j. matrix_set m i j (levenshtein_cell a b m i j)) m
                           [1..<Suc (length a)])
                 m2 [1..<Suc (length b)]
      in m3 ! length b ! length a)"

definition calculateSimilarity :: "jsstring \<Rightarrow> jsstring \<Rightarrow> rat" where
  "calculateSimilarity a b =
     (if a = b then 1
      else if length a = 0 \<or> length b = 0 then 0
      else 1 - of_nat (levenshteinDistance a b) / of_nat (max (length a) (length b)))"

definition indexOf :: "jsstring \<Rightarrow> jschar \<Rightarrow> nat \<Rightarrow> int" where
  \<comment> \<open>\<^verbatim>\<open>s.indexOf(c, fromIndex)\<close> for a one-character search string.\<close>
  "indexOf s c fromIndex =
     (case List.find (\<lambda>k. s ! k = c) [fromIndex..<length s] of
        None \<Rightarrow> - 1
      | Some k \<Rightarrow> int k)"

text \<open>One turn of the \<^verbatim>\<open>while\<close> loop of \<^verbatim>\<open>findDifferences\<close>, on \<^verbatim>\<open>(i, j, differences)\<close>.\<close>

definition findDifferences_step ::
  "jsstring \<Rightarrow> jsstring \<Rightarrow> nat \<times> nat \<times> Difference list \<Rightarrow> nat \<times> nat \<times> Difference list" where
  "findDifferences_step expd act st =
     (case st of (i, j, ds) \<Rightarrow>
        if i \<ge> length expd then
          (i, j + 1,
           ds @ [\<lparr>type = Insert, position = j, expected = None, actual = Some (act ! j)\<rparr>])
        else if j \<ge> length act then
          (i + 1, j,
           ds @ [\<lparr>type = Delete, position = i, expected = Some (expd ! i), actual = None\<rparr>])
        else if expd ! i \<noteq> act ! j then
          (let lookAheadExpected = indexOf expd (act ! j) i;
               lookAheadActual = indexOf act (expd ! i) j
           in if lookAheadActual = int j + 1 then
                (i, j + 1,
                 ds @ [\<lparr>type = Insert, position = j, expected = None, actual = Some (act ! j)\<rparr>])
              else if lookAheadExpected = int i + 1 then
                (i + 1, j,
                 ds @ [\<lparr>type = Delete, position = i, expected = Some (expd ! i),
                        actual = None\<rparr>])
              else
                (i + 1, j + 1,
                 ds @ [\<lparr>type = Replace, position = i, expected = Some (expd ! i),
                        actual = Some (act ! j)\<rparr>]))
        else (i + 1, j + 1, ds))"

lemma findDifferences_step_decreases:
  assumes "i < length expd \<or> j < length act"
    and "findDifferences_step expd act (i, j, ds) = (i', j', ds')"
  shows "(length expd - i') + (length act - j') < (length expd - i) + (length act - j)"
  using assms
  by (auto simp: findDifferences_step_def Let_def split: if_splits)

function findDifferences_loop ::
  "jsstring \<Rightarrow> jsstring \<Rightarrow> nat \<times> nat \<times> Difference list \<Rightarrow> Difference list" where
  "findDifferences_loop expd act (i, j, ds) =
     (if i < length expd \<or> j < length act then
        (let st = findDifferences_step expd act (i, j, ds) in
         if length (snd (snd st)) > max (length expd) (length act) * 2 then snd (snd st)
         else findDifferences_loop expd act st)
      else ds)"
  by pat_completeness auto
termination
proof (relation "measure (\<lambda>(expd, act, i, j, ds). (length expd - i) + (length act - j))")
  show "wf (measure (\<lambda>(expd, act, i, j, ds). (length expd - i) + (length act - j)))"
    by simp
next
  fix expd act :: jsstring and i j :: nat and ds :: "Difference list" and st
  assume c: "i < length expd \<or> j < length act"
    and st: "st = findDifferences_step expd act (i, j, ds)"
  obtain i' j' ds' where e: "findDifferences_step expd act (i, j, ds) = (i', j', ds')"
    by (cases "findDifferences_step expd act (i, j, ds)") auto
  from findDifferences_step_decreases [OF c e] st e
  show "((expd, act, st), (expd, act, i, j, ds))
        \<in> measure (\<lambda>(expd, act, i, j, ds). (length expd - i) + (length act - j))"
    by simp
qed

definition findDifferences :: "jsstring \<Rightarrow> jsstring \<Rightarrow> Difference list" where
  "findDifferences expd act = findDifferences_loop expd act (0, 0, [])"

definition fuzzyMatch :: "(jsstring \<Rightarrow> jsstring) \<Rightarrow> jsstring \<Rightarrow> jsstring \<Rightarrow> MatchResult" where
  "fuzzyMatch toLowerCase expd act =
     (let ne = normalizeKorean toLowerCase expd;
          na = normalizeKorean toLowerCase act
      in if ne = na then
           \<lparr>isMatch = True, similarity = 1, normalizedExpected = ne, normalizedActual = na,
            differences = []\<rparr>
         else
           (let ds = findDifferences ne na;
                sim = calculateSimilarity ne na
            in \<lparr>isMatch = (sim \<ge> 19 / 20), similarity = sim, normalizedExpected = ne,
                normalizedActual = na, differences = ds\<rparr>))"

text \<open>
  For the statements about \<^verbatim>\<open>levenshteinDistance\<close>: the edit distance between the first
  \<open>i\<close> characters of \<open>b\<close> and the first \<open>j\<close> characters of \<open>a\<close>, by the recurrence that the
  matrix is filled with.
\<close>

fun prefix_distance :: "jsstring \<Rightarrow> jsstring \<Rightarrow> nat \<Rightarrow> nat \<Rightarrow> nat" where
  "prefix_distance a b 0 j = j"
| "prefix_distance a b (Suc i) 0 = Suc i"
| "prefix_distance a b (Suc i) (Suc j) =
     (if b ! i = a ! j then prefix_distance a b i j
      else min (prefix_distance a b i j + 1)
             (min (prefix_distance a b (Suc i) j + 1) (prefix_distance a b i (Suc j) + 1)))"

text \<open>For the statements about \<^verbatim>\<open>normalizeKorean\<close>: the characters that its three
  \<^verbatim>\<open>replace\<close> calls leave in place.\<close>

definition kept :: "jschar \<Rightarrow> bool" where
  "kept c = (\<not> isWhitespace c \<and> c \<notin> set punctuation \<and> c \<notin> set asciiPunctuation)"

text \<open>For the statements below: what a tag adds to the raw tag sum, and the tags
  whose default weight is positive.\<close>

definition tagWeight :: "(string \<rightharpoonup> rat) \<Rightarrow> string \<Rightarrow> rat" where
  "tagWeight weights tag = (case weights tag of None \<Rightarrow> 0 | Some w \<Rightarrow> w)"

definition ordinaryTag :: "(string \<rightharpoonup> rat) \<Rightarrow> string \<Rightarrow> bool" where
  \<comment> \<open>A tag that the weights hold themselves, or that names no inherited member.\<close>
  "ordinaryTag weights tag = (getProperty weights tag \<noteq> Object)"

definition positiveTag :: "string \<Rightarrow> bool" where
  "positiveTag t = (case tagWeights DEFAULT_CONFIG t of None \<Rightarrow> False | Some w \<Rightarrow> 0 < w)"

section \<open>Properties of the scheduler\<close>

lemma Math_round_Ints: "Math_round x \<in> \<int>"
  by (simp add: Math_round_def)

lemma Math_round_nonneg: "0 \<le> x \<Longrightarrow> 0 \<le> Math_round x"
  by (simp add: Math_round_def)

text \<open>
  C1 (as amended). The Again rating resets repetitions to 0 in both schedulers,
  whatever the prior state. The route's \<^verbatim>\<open>calculateSM2\<close> returns the interval 0; the
  library's \<^verbatim>\<open>calculateNextReview\<close> returns the interval 1/1440 day.
\<close>

theorem again_resets:
  "repetitions (calculateSM2 Again ef ivl reps) = 0
   \<and> intervalDays (calculateSM2 Again ef ivl reps) = 0
   \<and> repetitions (newState (calculateNextReview clock s Again t)) = 0
   \<and> intervalDays (newState (calculateNextReview clock s Again t)) = 1 / 1440"
  by (simp add: calculateNextReview_def calculateNextInterval_def Let_def)

text \<open>
  C1 as stated fails on the route's scheduler: for a card rated Good three times (ease
  2.5, interval 15, three repetitions), Again returns the interval 0, not 1/1440.
\<close>

theorem again_interval_counterexample:
  "intervalDays (calculateSM2 Again (5 / 2) 15 3) \<noteq> 1 / 1440"
  by simp

lemma binary64_products:
  "binary64 50 (6 * binary64 52 (6 / 5)) = 8106479329266892 / 2 ^ 50"
  "binary64 50 (6 * binary64 52 (13 / 10)) = 8782019273372468 / 2 ^ 50"
  by code_simp+

text \<open>
  The second Hard and Easy reviews of the library scheduler: the products \<^verbatim>\<open>6 * 1.2\<close> and
  \<^verbatim>\<open>6 * 1.3\<close> are 7.199999999999999 and 7.800000000000001, one unit in the last place
  away from the binary64 numbers 7.2 and 7.8, which are 8106479329266893 and
  8782019273372467 over \<open>2 ^ 50\<close>.
\<close>

lemma second_review_library:
  "calculateNextInterval (s\<lparr>repetitions := 1\<rparr>) Hard = 8106479329266892 / 2 ^ 50"
  "calculateNextInterval (s\<lparr>repetitions := 1\<rparr>) Easy = 8782019273372468 / 2 ^ 50"
  "calculateNextInterval (s\<lparr>repetitions := 1\<rparr>) Hard \<noteq> 36 / 5"
  "calculateNextInterval (s\<lparr>repetitions := 1\<rparr>) Easy \<noteq> 39 / 5"
  by (simp_all add: calculateNextInterval_def binary64_products)

text \<open>
  C2 (as amended). On a card with repetitions 0 both schedulers give 1 day for
  Good and 4 days for Easy; for Hard the library gives 1 day and the route gives
  \<^verbatim>\<open>max(1, round(1.2 * interval))\<close>, which is 1 day for the interval 0 that such a card has
  under the route. On a card with repetitions 1 both give 6 days for Good; the route
  gives 10 days for Easy and \<^verbatim>\<open>max(1, round(1.2 * interval))\<close> for Hard, which is 1 day
  after a first Good or Hard (interval 1) and 5 days after a first Easy (interval 4).
\<close>

theorem first_and_second_review:
  "intervalDays (calculateSM2 Good ef ivl 0) = 1
   \<and> intervalDays (calculateSM2 Easy ef ivl 0) = 4
   \<and> intervalDays (calculateSM2 Hard ef ivl reps) = max 1 (Math_round (ivl * (6 / 5)))
   \<and> intervalDays (calculateSM2 Hard ef 0 0) = 1
   \<and> intervalDays (calculateSM2 Good ef ivl 1) = 6
   \<and> intervalDays (calculateSM2 Easy ef ivl 1) = 10
   \<and> intervalDays (calculateSM2 Hard ef 1 1) = 1
   \<and> intervalDays (calculateSM2 Hard ef 4 1) = 5
   \<and> calculateNextInterval (s\<lparr>repetitions := 0\<rparr>) Good = 1
   \<and> calculateNextInterval (s\<lparr>repetitions := 0\<rparr>) Hard = 1
   \<and> calculateNextInterval (s\<lparr>repetitions := 0\<rparr>) Easy = 4
   \<and> calculateNextInterval (s\<lparr>repetitions := 1\<rparr>) Good = 6"
  by (simp add: calculateNextInterval_def Math_round_def floor_eq_iff)

text \<open>
  C2 as stated fails on the route's scheduler: on a card rated Good once (ease 2.5,
  interval 1, repetitions 1), Hard returns 1 (not 7.2) and Easy returns 10 (not 7.8).
\<close>

theorem second_review_counterexample:
  "intervalDays (calculateSM2 Hard (5 / 2) 1 1) \<noteq> 36 / 5
   \<and> intervalDays (calculateSM2 Easy (5 / 2) 1 1) \<noteq> 39 / 5"
  by code_simp

text \<open>
  C3 (as amended). On an established card (repetitions at least 2) with interval 15
  and ease 2.5, the route's \<^verbatim>\<open>calculateSM2\<close> rounds to whole days: 38 for Good, 18 for
  Hard, 49 for Easy. The library's \<^verbatim>\<open>calculateNextInterval\<close> does not round: 37.5 for
  Good, 18 for Hard, 48.75 for Easy.
\<close>

theorem established_card:
  assumes "2 \<le> reps"
  shows "intervalDays (calculateSM2 Good (5 / 2) 15 reps) = 38
   \<and> intervalDays (calculateSM2 Hard (5 / 2) 15 reps) = 18
   \<and> intervalDays (calculateSM2 Easy (5 / 2) 15 reps) = 49
   \<and> calculateNextInterval
        \<lparr>easeFactor = 5 / 2, intervalDays = 15, repetitions = reps, dueAt = d\<rparr> Good = 75 / 2
   \<and> calculateNextInterval
        \<lparr>easeFactor = 5 / 2, intervalDays = 15, repetitions = reps, dueAt = d\<rparr> Hard = 18
   \<and> calculateNextInterval
        \<lparr>easeFactor = 5 / 2, intervalDays = 15, repetitions = reps, dueAt = d\<rparr> Easy = 195 / 4"
  using assms by (simp add: calculateNextInterval_def Math_round_def Let_def floor_eq_iff)

theorem established_card_witness:
  "intervalDays (calculateSM2 Good (5 / 2) 15 3) = 38
   \<and> intervalDays (calculateSM2 Hard (5 / 2) 15 3) = 18
   \<and> intervalDays (calculateSM2 Easy (5 / 2) 15 3) = 49
   \<and> calculateNextInterval
        \<lparr>easeFactor = 5 / 2, intervalDays = 15, repetitions = 3, dueAt = 0\<rparr> Good = 75 / 2
   \<and> calculateNextInterval
        \<lparr>easeFactor = 5 / 2, intervalDays = 15, repetitions = 3, dueAt = 0\<rparr> Hard = 18
   \<and> calculateNextInterval
        \<lparr>easeFactor = 5 / 2, intervalDays = 15, repetitions = 3, dueAt = 0\<rparr> Easy = 195 / 4"
proof -
  have h: "(2::int) \<le> 3" by simp
  show ?thesis by (rule established_card [OF h])
qed

text \<open>
  C3 as stated fails on the route's scheduler: with interval 15, ease 2.5 and two
  repetitions, Good returns 38 (not 37.5) and Easy returns 49 (not 48.75).
\<close>

theorem established_card_counterexample:
  "intervalDays (calculateSM2 Good (5 / 2) 15 2) \<noteq> 75 / 2
   \<and> intervalDays (calculateSM2 Easy (5 / 2) 15 2) \<noteq> 195 / 4"
  by code_simp

text \<open>
  C4. From an ease factor of at least 1.3, every rating leaves the ease factor at least
  1.3, in the route's \<^verbatim>\<open>calculateSM2\<close> and in the library's \<^verbatim>\<open>calculateNewEaseFactor\<close> and
  \<^verbatim>\<open>calculateNextReview\<close>. There is no ceiling: Easy always adds 0.15.
\<close>

theorem ease_floor:
  assumes "13 / 10 \<le> easeFactor s"
  shows "13 / 10 \<le> easeFactor (calculateSM2 rating (easeFactor s) (intervalDays s) (repetitions s))
   \<and> 13 / 10 \<le> calculateNewEaseFactor (easeFactor s) rating
   \<and> 13 / 10 \<le> easeFactor (newState (calculateNextReview clock s rating t))
   \<and> easeFactor (calculateSM2 Easy (easeFactor s) (intervalDays s) (repetitions s))
       = easeFactor s + 3 / 20
   \<and> easeFactor (newState (calculateNextReview clock s Easy t)) = easeFactor s + 3 / 20"
  using assms by (cases rating) (simp_all add: calculateNextReview_def Let_def)

theorem ease_floor_witness:
  "13 / 10 \<le> easeFactor (calculateSM2 Again (7 / 5) 10 5)
   \<and> 13 / 10 \<le> calculateNewEaseFactor (7 / 5) Again
   \<and> 13 / 10 \<le> easeFactor (newState (calculateNextReview 0
        \<lparr>easeFactor = 7 / 5, intervalDays = 10, repetitions = 5, dueAt = 0\<rparr> Again None))
   \<and> easeFactor (calculateSM2 Easy (7 / 5) 10 5) = 31 / 20
   \<and> easeFactor (newState (calculateNextReview 0
        \<lparr>easeFactor = 7 / 5, intervalDays = 10, repetitions = 5, dueAt = 0\<rparr> Easy None)) = 31 / 20"
  using ease_floor [of "\<lparr>easeFactor = 7 / 5, intervalDays = 10, repetitions = 5, dueAt = 0\<rparr>"
      Again 0 None]
  by (simp add: calculateNextReview_def Let_def)

lemma calculateSM2_invariant:
  assumes "13 / 10 \<le> ef" "0 \<le> ivl" "0 \<le> reps"
  shows "13 / 10 \<le> easeFactor (calculateSM2 rating ef ivl reps)
    \<and> 0 \<le> intervalDays (calculateSM2 rating ef ivl reps)
    \<and> 0 \<le> repetitions (calculateSM2 rating ef ivl reps)"
  using assms
  by (cases rating) (auto simp: Let_def max_def intro!: Math_round_nonneg)

lemma stateAfter_invariant:
  "13 / 10 \<le> easeFactor (stateAfter history)
   \<and> 0 \<le> intervalDays (stateAfter history)
   \<and> 0 \<le> repetitions (stateAfter history)"
proof (induction history)
  case Nil
  show ?case by simp
next
  case (Cons rating earlier)
  then show ?case
    using calculateSM2_invariant [of "easeFactor (stateAfter earlier)"
        "intervalDays (stateAfter earlier)" "repetitions (stateAfter earlier)" rating]
    by (simp add: Let_def)
qed

text \<open>
  C10. The interval returned by the route's \<^verbatim>\<open>calculateSM2\<close> is a whole number of days
  for every input. It is at least 0 on every state that the function can be called
  with, that is, on the progress record after any history of ratings, and more generally
  whenever the input interval and ease factor are at least 0. The repetitions returned
  are at least 0 whenever the input repetitions are.
\<close>

theorem whole_day_interval:
  "intervalDays (calculateSM2 rating ef ivl reps) \<in> \<int>
   \<and> 0 \<le> intervalDays (calculateSM2 rating (easeFactor (stateAfter history))
            (intervalDays (stateAfter history)) (repetitions (stateAfter history)))
   \<and> intervalDays (stateAfter history) \<in> \<int>
   \<and> (0 \<le> ivl \<and> 0 \<le> ef \<longrightarrow> 0 \<le> intervalDays (calculateSM2 rating ef ivl reps))
   \<and> (0 \<le> reps \<longrightarrow> 0 \<le> repetitions (calculateSM2 rating ef ivl reps))"
proof -
  have whole: "intervalDays (calculateSM2 r e i n) \<in> \<int>" for r e i n
    by (cases r) (auto simp: Let_def Math_round_Ints max_def)
  have stored: "intervalDays (stateAfter history) \<in> \<int>"
    by (cases history) (simp_all add: whole Let_def)
  have reached: "0 \<le> intervalDays (calculateSM2 rating (easeFactor (stateAfter history))
            (intervalDays (stateAfter history)) (repetitions (stateAfter history)))"
    using stateAfter_invariant [of history] calculateSM2_invariant by blast
  have general: "0 \<le> intervalDays (calculateSM2 rating ef ivl reps)" if "0 \<le> ivl" "0 \<le> ef"
    using that by (cases rating) (auto simp: Let_def max_def intro!: Math_round_nonneg)
  have reps: "0 \<le> repetitions (calculateSM2 rating ef ivl reps)" if "0 \<le> reps"
    using that by (cases rating) (auto simp: Let_def)
  from whole stored reached general reps show ?thesis by blast
qed

theorem whole_day_interval_witness:
  "intervalDays (calculateSM2 Good (5 / 2) 15 3) \<in> \<int>
   \<and> stateAfter [Good, Good, Good] = \<lparr>easeFactor = 5 / 2, intervalDays = 15, repetitions = 3\<rparr>
   \<and> 0 \<le> intervalDays (calculateSM2 Good (5 / 2) 15 3)
   \<and> intervalDays (calculateSM2 Good (5 / 2) 15 3) = 38
   \<and> 0 \<le> repetitions (calculateSM2 Good (5 / 2) 15 3)"
proof -
  have s: "stateAfter [Good, Good, Good]
           = \<lparr>easeFactor = 5 / 2, intervalDays = 15, repetitions = 3\<rparr>"
    by code_simp
  have v: "intervalDays (calculateSM2 Good (5 / 2) 15 3) = 38"
    by code_simp
  from whole_day_interval [of Good "5 / 2" 15 3 "[Good, Good, Good]"] s v
  show ?thesis by simp
qed

section \<open>Properties of the usefulness scorer\<close>

lemma normalizeScore_range:
  "\<exists>n. normalizeScore (Finite x) = Finite n \<and> n \<in> \<int> \<and> 0 \<le> n \<and> n \<le> 100"
  by (simp add: normalizeScore_def Math_round_def max_def min_def)

lemma normalizeScore_top: "100 \<le> x \<Longrightarrow> normalizeScore (Finite x) = Finite 100"
proof -
  assume "100 \<le> x"
  then have "(100::int) \<le> \<lfloor>x + 1 / 2\<rfloor>" by linarith
  then have "(100::rat) \<le> of_int \<lfloor>x + 1 / 2\<rfloor>" by linarith
  then show ?thesis by (simp add: normalizeScore_def Math_round_def)
qed

lemma normalizeScore_20: "normalizeScore (Finite 20) = Finite 20"
  by (simp add: normalizeScore_def Math_round_def floor_eq_iff)

lemma getTagScore_loop_fst:
  "list_all (ordinaryTag weights) ts \<Longrightarrow>
   fst (getTagScore_loop weights ts (Sum r, rs)) = Sum (r + sum_list (map (tagWeight weights) ts))"
  by (induction ts arbitrary: r rs)
     (auto simp: tagWeight_def ordinaryTag_def getProperty_def split: option.splits if_splits)

lemma getTagScore_fst:
  assumes "list_all (ordinaryTag weights) ts"
  shows "fst (getTagScore ts weights)
         = Finite (max (- 30) (min 30 (sum_list (map (tagWeight weights) ts))))"
  using getTagScore_loop_fst [OF assms, of 0 "[]"]
  by (auto simp: getTagScore_def MAX_TAG_IMPACT_def Let_def split: prod.splits rawScore.splits)

lemma own_ordinary: "weights t = Some w \<Longrightarrow> ordinaryTag weights t"
  by (simp add: ordinaryTag_def getProperty_def)

lemma default_rare: "tagWeight (tagWeights DEFAULT_CONFIG) ''rare'' = - 5"
  by (simp add: tagWeight_def DEFAULT_CONFIG_def)

lemma sum_rare:
  "sum_list (map (tagWeight (tagWeights DEFAULT_CONFIG)) (replicate n ''rare'')) = - 5 * of_nat n"
  by (induction n) (simp_all add: default_rare algebra_simps)

lemma rare_ordinary: "list_all (ordinaryTag (tagWeights DEFAULT_CONFIG)) (replicate n ''rare'')"
proof -
  have "tagWeights DEFAULT_CONFIG ''rare'' = Some (- 5)" by (simp add: DEFAULT_CONFIG_def)
  then have "ordinaryTag (tagWeights DEFAULT_CONFIG) ''rare''" by (rule own_ordinary)
  then show ?thesis by (induction n) simp_all
qed

lemma default_positive:
  assumes "tagWeights DEFAULT_CONFIG t = Some w" "0 < w"
  shows "3 \<le> w"
proof -
  from assms(1) have "(t, w) \<in> set [(''beginner'', 10), (''essential'', 10), (''travel'', 8),
         (''food'', 7), (''greeting'', 9), (''pattern'', 8), (''business'', 6), (''formal'', 5),
         (''slang'', 3), (''rare'', - 5::rat)]"
    unfolding DEFAULT_CONFIG_def by (simp only: ScoringConfig.simps) (rule map_of_SomeD)
  with assms(2) show ?thesis by auto
qed

lemma sum_positive:
  "list_all positiveTag ts \<Longrightarrow>
   list_all (ordinaryTag (tagWeights DEFAULT_CONFIG)) ts
   \<and> 3 * of_nat (length ts) \<le> sum_list (map (tagWeight (tagWeights DEFAULT_CONFIG)) ts)"
proof (induction ts)
  case Nil
  then show ?case by simp
next
  case (Cons t ts)
  from Cons.prems obtain w where w: "tagWeights DEFAULT_CONFIG t = Some w" "0 < w"
    by (auto simp: positiveTag_def split: option.splits)
  then have "3 \<le> tagWeight (tagWeights DEFAULT_CONFIG) t"
    using default_positive [OF w] by (simp add: tagWeight_def)
  with Cons own_ordinary [of "tagWeights DEFAULT_CONFIG" t w, OF w(1)]
  show ?case by (simp add: algebra_simps)
qed

lemma score_no_manual:
  "manualScore c = None \<Longrightarrow>
   score (calculateUsefulness c config) =
     normalizeScore
       (js_add
         (js_add
           (js_add (Finite BASE_SCORE) (fst (getTagScore (tags c) (tagWeights (mergeConfig config)))))
           (toNumber (fst (getPatternScore (case isPattern c of None \<Rightarrow> False | Some b \<Rightarrow> b)
                (patternBonus (mergeConfig config))))))
         (Finite (fst (getFrequencyScore (frequencyRank c)))))"
  by (simp add: calculateUsefulness_def Let_def)

text \<open>
  Where the score is in range: on a card whose tags are ordinary for the merged weights,
  with a configuration whose pattern bonus is a number, the score is a whole number
  between 0 and 100.
\<close>

lemma score_range_ordinary:
  assumes "list_all (ordinaryTag (tagWeights (mergeConfig config))) (tags c)"
    and "patternBonus (mergeConfig config) = Some bonus"
  shows "\<exists>n. score (calculateUsefulness c config) = Finite n \<and> n \<in> \<int> \<and> 0 \<le> n \<and> n \<le> 100"
proof (cases "manualScore c")
  case (Some m)
  then show ?thesis
    using normalizeScore_range [of m] by (simp add: calculateUsefulness_def)
next
  case None
  show ?thesis
    using normalizeScore_range
    by (simp add: score_no_manual [OF None] getTagScore_fst [OF assms(1)] assms(2)
        getPatternScore_def js_add_def toNumber_def)
qed

text \<open>
  With the default configuration, seven or more \<^verbatim>\<open>rare\<close> tags (the one tag of
  negative weight), no pattern flag, no rank and no manual score give exactly 20; seven
  or more tags of positive weight, the pattern flag and a rank of at most 1000 give
  exactly 100.
\<close>

lemma score_seven_rare:
  assumes h: "7 \<le> n" "tags c = replicate n ''rare''" "isPattern c \<noteq> Some True"
      "frequencyRank c = None" "manualScore c = None"
  shows "score (calculateUsefulness c None) = Finite 20"
proof -
  have n: "(35::rat) \<le> 5 * of_nat n" using h(1) by simp
  have o: "list_all (ordinaryTag (tagWeights DEFAULT_CONFIG)) (tags c)"
    by (simp only: h(2) rare_ordinary)
  have "sum_list (map (tagWeight (tagWeights DEFAULT_CONFIG)) (tags c)) = - 5 * of_nat n"
    by (simp only: h(2) sum_rare)
  then have t: "fst (getTagScore (tags c) (tagWeights DEFAULT_CONFIG)) = Finite (- 30)"
    using n by (simp add: getTagScore_fst [OF o])
  have p: "(case isPattern c of None \<Rightarrow> False | Some b \<Rightarrow> b) = False"
    using h(3) by (cases "isPattern c") auto
  show ?thesis
    by (simp add: score_no_manual [OF h(5)] t p h(4) mergeConfig_def getPatternScore_def
        getFrequencyScore_def BASE_SCORE_def js_add_def toNumber_def normalizeScore_20)
qed

lemma score_seven_positive:
  assumes h: "7 \<le> length (tags c)" "list_all positiveTag (tags c)" "isPattern c = Some True"
      "frequencyRank c = Some r" "r \<le> 1000" "manualScore c = None"
  shows "score (calculateUsefulness c None) = Finite 100"
proof -
  have "(21::rat) \<le> 3 * of_nat (length (tags c))" using h(1) by simp
  with sum_positive [OF h(2)]
  have o: "list_all (ordinaryTag (tagWeights DEFAULT_CONFIG)) (tags c)"
    and "21 \<le> sum_list (map (tagWeight (tagWeights DEFAULT_CONFIG)) (tags c))" by simp_all
  then obtain x where t: "fst (getTagScore (tags c) (tagWeights DEFAULT_CONFIG)) = Finite x"
    and x: "21 \<le> x"
    by (simp add: getTagScore_fst)
  have b: "patternBonus DEFAULT_CONFIG = Some 15" by (simp add: DEFAULT_CONFIG_def)
  show ?thesis
    using x
    by (simp add: score_no_manual [OF h(6)] t b h(3) h(4) h(5) mergeConfig_def getPatternScore_def
        getFrequencyScore_def BASE_SCORE_def js_add_def toNumber_def normalizeScore_top)
qed

text \<open>
  C5. The score is meant to be a whole number between 0 and 100 for every card and
  configuration, and the code does not keep it there. For a card whose one tag is
  \<^verbatim>\<open>constructor\<close>, the lookup \<^verbatim>\<open>weights[tag]\<close> yields the function inherited from
  \<^verbatim>\<open>Object.prototype\<close>, which is not \<^verbatim>\<open>undefined\<close>; \<^verbatim>\<open>rawScore\<close> becomes a string and the
  score is \<^verbatim>\<open>NaN\<close>. For a pattern card and a configuration that holds the key
  \<^verbatim>\<open>patternBonus\<close> with the value \<^verbatim>\<open>undefined\<close>, the total is \<^verbatim>\<open>NaN\<close> as well.
\<close>

theorem score_not_a_number:
  "score (calculateUsefulness
      \<lparr>korean = [], english = [], tags = [''constructor''], isPattern = None,
       manualScore = None, frequencyRank = None\<rparr> None) = NaN
   \<and> score (calculateUsefulness
      \<lparr>korean = [], english = [], tags = [], isPattern = Some True,
       manualScore = None, frequencyRank = None\<rparr>
      (Some \<lparr>tagWeights_opt = None, patternBonus_opt = Undef, frequencyWeight_opt = Absent,
             userLevel_opt = Absent\<rparr>)) = NaN"
  by code_simp

text \<open>
  C6 (as amended). When a manual score is present the result is that score, rounded
  and clamped to the range 0 to 100, with the single reason \<^verbatim>\<open>manual score override\<close>;
  tags, pattern flag, rank and configuration play no part.
\<close>

theorem manual_override:
  assumes "manualScore c = Some m"
  shows "calculateUsefulness c config =
    \<lparr>score = Finite (max 0 (min 100 (Math_round m))),
     reasons = [[Str ''manual score override'']]\<rparr>"
  using assms by (simp add: calculateUsefulness_def normalizeScore_def)

theorem manual_override_witness:
  "calculateUsefulness
     \<lparr>korean = [], english = [], tags = [''beginner''], isPattern = Some True,
      manualScore = Some 150, frequencyRank = Some 100\<rparr> None =
   \<lparr>score = Finite 100, reasons = [[Str ''manual score override'']]\<rparr>"
  using manual_override [of "\<lparr>korean = [], english = [], tags = [''beginner''],
      isPattern = Some True, manualScore = Some 150, frequencyRank = Some 100\<rparr>" 150 None]
  by (simp add: Math_round_def)

text \<open>
  C6 as stated fails in the text of the reason: for the manual score 150 the single
  reason is \<^verbatim>\<open>manual score override\<close>, not \<^verbatim>\<open>manual override\<close>.
\<close>

theorem manual_override_counterexample:
  "reasons (calculateUsefulness
     \<lparr>korean = [], english = [], tags = [''beginner''], isPattern = None,
      manualScore = Some 150, frequencyRank = None\<rparr> None) \<noteq> [[Str ''manual override'']]"
  by (simp add: calculateUsefulness_def)

section \<open>Properties of the text matcher\<close>

lemma init_rows:
  "foldl (\<lambda>m i. arr_set m i [i]) [] [0..<n] = map (\<lambda>i. [i]) [0..<n]"
  by (induction n) (simp_all add: arr_set_def)

lemma init_first_row:
  assumes "m \<noteq> []" "m ! 0 = [0]"
  shows "foldl (\<lambda>m j. matrix_set m 0 j j) m [0..<Suc k] = m[0 := [0..<Suc k]]"
proof (induction k)
  case 0
  from assms show ?case by (cases m) (simp_all add: matrix_set_def arr_set_def)
next
  case (Suc k)
  have "[0..<Suc (Suc k)] = [0..<Suc k] @ [Suc k]" by simp
  then have "foldl (\<lambda>m j. matrix_set m 0 j j) m [0..<Suc (Suc k)]
      = matrix_set (m[0 := [0..<Suc k]]) 0 (Suc k) (Suc k)"
    using Suc.IH by (simp only: foldl_append) simp
  also have "\<dots> = m[0 := [0..<Suc (Suc k)]]"
    using assms(1) by (cases m) (simp_all add: matrix_set_def arr_set_def)
  finally show ?case .
qed

lemma prefix_distance_0 [simp]: "prefix_distance a b i 0 = i"
  by (cases i) simp_all

lemma fill_row:
  assumes i: "0 < i" "i < length m"
    and prev: "m ! (i - 1) = map (prefix_distance a b (i - 1)) [0..<Suc (length a)]"
    and cur: "m ! i = [i]"
    and l: "l \<le> length a"
  shows "foldl (\<lambda>m j. matrix_set m i j (levenshtein_cell a b m i j)) m [1..<Suc l]
         = m[i := map (prefix_distance a b i) [0..<Suc l]]"
  using l
proof (induction l)
  case 0
  have "m[i := [i]] = m" using cur by (metis list_update_id)
  then show ?case by simp
next
  case (Suc l)
  let ?m' = "m[i := map (prefix_distance a b i) [0..<Suc l]]"
  obtain i' where i': "i = Suc i'" using i(1) by (cases i) auto
  have row: "?m' ! i = map (prefix_distance a b i) [0..<Suc l]" using i(2) by simp
  have pm: "?m' ! i' = map (prefix_distance a b i') [0..<Suc (length a)]"
    using prev i' by simp
  have c1: "?m' ! i' ! l = prefix_distance a b i' l"
    using Suc.prems by (simp only: pm) (simp add: nth_map_upt del: upt_Suc)
  have c2: "?m' ! i' ! Suc l = prefix_distance a b i' (Suc l)"
    using Suc.prems by (simp only: pm) (simp add: nth_map_upt del: upt_Suc)
  have c3: "?m' ! i ! l = prefix_distance a b i l"
    by (simp only: row) (simp add: nth_map_upt del: upt_Suc)
  have cell: "levenshtein_cell a b ?m' i (Suc l) = prefix_distance a b i (Suc l)"
    using c1 c2 c3 by (simp add: levenshtein_cell_def i' del: upt_Suc list_update_overwrite)
  have "[1..<Suc (Suc l)] = [1..<Suc l] @ [Suc l]" by simp
  then have "foldl (\<lambda>m j. matrix_set m i j (levenshtein_cell a b m i j)) m [1..<Suc (Suc l)]
      = matrix_set ?m' i (Suc l) (levenshtein_cell a b ?m' i (Suc l))"
    using Suc by (simp only: foldl_append) simp
  also have "\<dots> = m[i := map (prefix_distance a b i) [0..<Suc l] @ [prefix_distance a b i (Suc l)]]"
    using i(2) by (simp only: cell matrix_set_def row arr_set_def) simp
  also have "\<dots> = m[i := map (prefix_distance a b i) [0..<Suc (Suc l)]]"
    by simp
  finally show ?case .
qed

lemma fill_rows:
  assumes "k \<le> length b"
  shows "foldl
           (\<lambda>m i. foldl (\<lambda>m j. matrix_set m i j (levenshtein_cell a b m i j)) m
                     [1..<Suc (length a)])
           ((map (\<lambda>i. [i]) [0..<Suc (length b)])[0 := [0..<Suc (length a)]])
           [1..<Suc k]
         = map (\<lambda>i. if i \<le> k then map (prefix_distance a b i) [0..<Suc (length a)] else [i])
             [0..<Suc (length b)]"
    (is "foldl ?row ?m0 _ = ?M k")
  using assms
proof (induction k)
  case 0
  have r: "map (prefix_distance a b 0) xs = xs" for xs
    by (induction xs) simp_all
  have "?M 0 = ?m0"
  proof (rule nth_equalityI)
    show "length (?M 0) = length ?m0" by simp
  next
    fix i
    assume "i < length (?M 0)"
    then have "i < Suc (length b)" by simp
    then show "?M 0 ! i = ?m0 ! i"
      by (cases "i = 0") (simp_all add: r nth_list_update nth_map_upt del: upt_Suc)
  qed
  then show ?case by simp
next
  case (Suc k)
  have len: "length (?M k) = Suc (length b)" by simp
  have prev: "?M k ! (Suc k - 1) = map (prefix_distance a b (Suc k - 1)) [0..<Suc (length a)]"
    using Suc.prems by (simp add: nth_map_upt del: upt_Suc)
  have cur: "?M k ! Suc k = [Suc k]"
    using Suc.prems by (simp add: nth_map_upt del: upt_Suc)
  have "[1..<Suc (Suc k)] = [1..<Suc k] @ [Suc k]" by simp
  then have "foldl ?row ?m0 [1..<Suc (Suc k)] = ?row (?M k) (Suc k)"
    using Suc by (simp only: foldl_append) simp
  also have "\<dots> = (?M k)[Suc k := map (prefix_distance a b (Suc k)) [0..<Suc (length a)]]"
    using Suc.prems by (intro fill_row [OF _ _ prev cur]) (simp_all del: upt_Suc)
  also have "\<dots> = ?M (Suc k)"
  proof (rule nth_equalityI)
    show "length ((?M k)[Suc k := map (prefix_distance a b (Suc k)) [0..<Suc (length a)]])
          = length (?M (Suc k))"
      by simp
  next
    fix i
    assume "i < length ((?M k)[Suc k := map (prefix_distance a b (Suc k)) [0..<Suc (length a)]])"
    then have "i < Suc (length b)" by simp
    then show "(?M k)[Suc k := map (prefix_distance a b (Suc k)) [0..<Suc (length a)]] ! i
               = ?M (Suc k) ! i"
      by (cases "i = Suc k") (simp_all add: nth_list_update nth_map_upt del: upt_Suc)
  qed
  finally show ?case .
qed

lemma levenshteinDistance_prefix_distance:
  "levenshteinDistance a b = prefix_distance a b (length b) (length a)"
proof -
  have m1: "foldl (\<lambda>m i. arr_set m i [i]) [] [0..<Suc (length b)]
            = map (\<lambda>i. [i]) [0..<Suc (length b)]"
    by (rule init_rows)
  have m2: "foldl (\<lambda>m j. matrix_set m 0 j j) (map (\<lambda>i. [i]) [0..<Suc (length b)])
              [0..<Suc (length a)]
            = (map (\<lambda>i. [i]) [0..<Suc (length b)])[0 := [0..<Suc (length a)]]"
    by (rule init_first_row) (simp_all add: nth_map_upt del: upt_Suc)
  show ?thesis
    unfolding levenshteinDistance_def Let_def m1 m2 fill_rows [OF order_refl]
    by (simp add: nth_map_upt del: upt_Suc)
qed

lemma prefix_distance_le: "prefix_distance a b i j \<le> max i j"
  by (induction a b i j rule: prefix_distance.induct) auto

lemma prefix_distance_0_eq:
  "i \<le> length b \<Longrightarrow> j \<le> length a \<Longrightarrow> prefix_distance a b i j = 0 \<Longrightarrow> take i b = take j a"
  by (induction a b i j rule: prefix_distance.induct)
     (auto simp: take_Suc_conv_app_nth split: if_splits)

text \<open>
  C7. Matching a string against itself gives similarity 1, a match and no differences,
  for every string, the empty one included, and whatever the engine's lower-casing is.
\<close>

theorem match_self:
  "similarity (fuzzyMatch toLowerCase x x) = 1
   \<and> isMatch (fuzzyMatch toLowerCase x x)
   \<and> differences (fuzzyMatch toLowerCase x x) = []
   \<and> similarity (fuzzyMatch toLowerCase [] []) = 1
   \<and> isMatch (fuzzyMatch toLowerCase [] [])
   \<and> differences (fuzzyMatch toLowerCase [] []) = []"
  by (simp add: fuzzyMatch_def Let_def)

text \<open>
  C8. For every pair of strings the similarity is 0 when exactly one of them is empty,
  is 1 only when the two are equal, and lies between 0 and 1.
\<close>

theorem similarity_bounds:
  "(a = [] \<and> b \<noteq> [] \<or> a \<noteq> [] \<and> b = [] \<longrightarrow> calculateSimilarity a b = 0)
   \<and> (calculateSimilarity a b = 1 \<longrightarrow> a = b)
   \<and> 0 \<le> calculateSimilarity a b
   \<and> calculateSimilarity a b \<le> 1"
proof -
  let ?d = "levenshteinDistance a b" and ?n = "max (length a) (length b)"
  have le: "?d \<le> ?n"
    by (simp only: levenshteinDistance_prefix_distance max.commute [of "length a"]
        prefix_distance_le)
  have zero: "a = b" if "?d = 0"
    using prefix_distance_0_eq [of "length b" b "length a" a] that
    by (simp add: levenshteinDistance_prefix_distance)
  have empty: "calculateSimilarity a b = 0" if "a = [] \<and> b \<noteq> [] \<or> a \<noteq> [] \<and> b = []"
    using that by (auto simp: calculateSimilarity_def)
  have one: "a = b" if h: "calculateSimilarity a b = 1"
  proof (rule ccontr)
    assume ne: "a \<noteq> b"
    with h have pos: "a \<noteq> []" "b \<noteq> []"
      by (auto simp: calculateSimilarity_def split: if_splits)
    then have n: "0 < ?n" by (cases a) auto
    from h ne pos have "(of_nat ?d :: rat) / of_nat ?n = 0"
      by (simp add: calculateSimilarity_def)
    with n pos have "?d = 0" by auto
    with zero ne show False by simp
  qed
  have range: "0 \<le> calculateSimilarity a b \<and> calculateSimilarity a b \<le> 1"
  proof (cases "a = b \<or> a = [] \<or> b = []")
    case True
    then show ?thesis by (auto simp: calculateSimilarity_def)
  next
    case False
    then have n: "0 < ?n" by (cases a) auto
    from le have "(of_nat ?d :: rat) \<le> of_nat ?n" by (simp only: of_nat_le_iff)
    with n have "(of_nat ?d :: rat) / of_nat ?n \<le> 1" by (simp add: divide_le_eq)
    moreover have "0 \<le> (of_nat ?d :: rat) / of_nat ?n" by simp
    ultimately show ?thesis using False by (simp add: calculateSimilarity_def)
  qed
  from empty one range show ?thesis by blast
qed

theorem similarity_bounds_witness:
  "calculateSimilarity [0xAC00] [] = 0
   \<and> calculateSimilarity [] [0xAC00] = 0
   \<and> calculateSimilarity [0xAC00] [0xAC00] = 1
   \<and> 0 \<le> calculateSimilarity [0xAC00, 0xB155] [0xAC00]
   \<and> calculateSimilarity [0xAC00, 0xB155] [0xAC00] \<le> 1"
  using similarity_bounds [of "[0xAC00]" "[]"] similarity_bounds [of "[]" "[0xAC00]"]
    similarity_bounds [of "[0xAC00]" "[0xAC00]"]
    similarity_bounds [of "[0xAC00, 0xB155]" "[0xAC00]"]
  by (simp add: calculateSimilarity_def)

lemma dropWhile_none: "list_all (\<lambda>c. \<not> P c) s \<Longrightarrow> dropWhile P s = s"
  by (cases s) simp_all

lemma trim_kept: "list_all kept s \<Longrightarrow> trim s = s"
proof -
  assume "list_all kept s"
  then have w: "list_all (\<lambda>c. \<not> isWhitespace c) s"
    by (simp add: list_all_iff kept_def)
  then have "list_all (\<lambda>c. \<not> isWhitespace c) (rev s)"
    by (simp add: list_all_iff)
  with w show ?thesis by (simp add: trim_def dropWhile_none)
qed

lemma strip_kept:
  "filter (\<lambda>c. c \<notin> set asciiPunctuation)
     (filter (\<lambda>c. c \<notin> set punctuation) (filter (\<lambda>c. \<not> isWhitespace c) s)) = filter kept s"
  by (induction s) (simp_all add: kept_def)

lemma filter_kept: "list_all kept s \<Longrightarrow> filter kept s = s"
  by (simp add: list_all_iff)

text \<open>
  C9. Normalisation is idempotent, for every string: it returns the lower-cased string
  of the characters that are neither white space nor in one of the two punctuation
  classes, and no such character is left in the result. The engine's \<^verbatim>\<open>toLowerCase\<close>
  is taken to be idempotent itself and to produce no white space or punctuation from a
  string that has none.
\<close>

theorem normalize_idempotent:
  assumes idem: "\<And>s. toLowerCase (toLowerCase s) = toLowerCase s"
    and clean: "\<And>s. list_all kept s \<Longrightarrow> list_all kept (toLowerCase s)"
  shows "normalizeKorean toLowerCase (normalizeKorean toLowerCase x) = normalizeKorean toLowerCase x
    \<and> normalizeKorean toLowerCase x = toLowerCase (filter kept x)
    \<and> list_all kept (normalizeKorean toLowerCase x)"
proof -
  let ?y = "toLowerCase (filter kept x)"
  have k: "list_all kept ?y" by (rule clean) (simp add: list_all_iff)
  have n: "normalizeKorean toLowerCase x = ?y"
    by (simp only: normalizeKorean_def strip_kept trim_kept [OF k])
  have "normalizeKorean toLowerCase ?y = trim (toLowerCase ?y)"
    by (simp only: normalizeKorean_def strip_kept filter_kept [OF k])
  also have "\<dots> = ?y" by (simp only: idem trim_kept [OF k])
  finally show ?thesis using n k by simp
qed

lemma asciiLower_idem: "asciiLower (asciiLower s) = asciiLower s"
proof -
  have "\<not> (0x41 \<le> c + 0x20 \<and> c + 0x20 \<le> 0x5A)" if "0x41 \<le> c" "c \<le> 0x5A" for c :: jschar
    using that by unat_arith
  then show ?thesis by (induction s) (auto simp: asciiLower_def)
qed

lemma upper_to_lower:
  fixes c :: jschar
  assumes "0x41 \<le> c" "c \<le> 0x5A"
  shows "0x61 \<le> c + 0x20 \<and> c + 0x20 \<le> 0x7A"
proof -
  have l: "65 \<le> unat c" and u: "unat c \<le> 90"
    using assms by (simp_all add: word_le_nat_alt)
  have "unat (c + 0x20) = unat c + unat (0x20 :: jschar)"
    using u by (subst unat_add_lem [symmetric]) simp
  then have "unat (c + 0x20) = unat c + 32" by simp
  with l u show ?thesis by (simp add: word_le_nat_alt)
qed

lemma lower_kept: "0x61 \<le> d \<Longrightarrow> d \<le> 0x7A \<Longrightarrow> kept d" for d :: jschar
  unfolding kept_def isWhitespace_def punctuation_def asciiPunctuation_def
  by (auto simp: word_le_nat_alt)

lemma asciiLower_kept: "list_all kept s \<Longrightarrow> list_all kept (asciiLower s)"
  using upper_to_lower lower_kept
  by (induction s) (auto simp: asciiLower_def)

theorem normalize_idempotent_witness:
  "normalizeKorean asciiLower (normalizeKorean asciiLower [0x48, 0x69, 0x21, 0x20, 0xC548])
     = normalizeKorean asciiLower [0x48, 0x69, 0x21, 0x20, 0xC548]
   \<and> normalizeKorean asciiLower [0x48, 0x69, 0x21, 0x20, 0xC548] = [0x68, 0x69, 0xC548]"
  using normalize_idempotent [of asciiLower "[0x48, 0x69, 0x21, 0x20, 0xC548]",
      OF asciiLower_idem asciiLower_kept]
  by (simp add: normalizeKorean_def trim_def asciiLower_def kept_def isWhitespace_def
      punctuation_def asciiPunctuation_def)

end
